theory Spec2Isabelle
  imports Complex_Main
begin

text \<open>
  A model of the server-side SVG renderer: \<open>extractSvgDimensions\<close> and
  \<open>renderSvgFullPage\<close> of \<open>src/renderer.js\<close>, the handler of \<open>POST /render\<close>
  of \<open>examples/fallback-server.js\<close>, and \<open>svgDataUriToString\<close> of the Safari
  fallback module. The source holds two copies of \<open>renderSvgFullPage\<close>; the model
  follows the first one, which also writes debug output. Puppeteer, the file system, the
  clock and the console lie outside the program: a function takes a \<open>world\<close> that
  says what each of their operations returns or throws, and returns, next to its outcome,
  the list of the events it caused.
\<close>

section \<open>JavaScript values used by the renderer\<close>

text \<open>
  Strings are lists of 8-bit characters: the UTF-8 bytes of the JavaScript string.
  Numbers are the four shapes a JavaScript number can take; a finite number is a
  real number (the rounding of IEEE doubles is not modelled).
\<close>

datatype jsnum = NaN | PosInf | NegInf | Fin real

text \<open>Truthiness of a number: \<open>0\<close> and \<open>NaN\<close> are falsy.\<close>

fun truthy_num :: "jsnum \<Rightarrow> bool" where
  "truthy_num NaN = False"
| "truthy_num (Fin x) = (x \<noteq> 0)"
| "truthy_num PosInf = True"
| "truthy_num NegInf = True"

text \<open>\<open>v || d\<close> for an optional numeric property (\<open>None\<close> is \<open>undefined\<close>).\<close>

fun num_or :: "jsnum option \<Rightarrow> jsnum \<Rightarrow> jsnum" where
  "num_or None d = d"
| "num_or (Some v) d = (if truthy_num v then v else d)"

text \<open>\<open>v || d\<close> for an optional string property: the empty string is falsy.\<close>

fun str_or :: "string option \<Rightarrow> string \<Rightarrow> string" where
  "str_or None d = d"
| "str_or (Some s) d = (if s = [] then d else s)"

text \<open>\<open>Number.isFinite\<close>.\<close>

fun isFinite :: "jsnum \<Rightarrow> bool" where
  "isFinite (Fin x) = True"
| "isFinite NaN = False"
| "isFinite PosInf = False"
| "isFinite NegInf = False"

text \<open>
  \<open>x * 100\<close> and \<open>Math.round\<close> (ties go up: \<open>floor (x + 1/2)\<close>). The
  product is the exact one; JavaScript rounds it to a double first.
\<close>

fun times100 :: "jsnum \<Rightarrow> jsnum" where
  "times100 (Fin x) = Fin (x * 100)"
| "times100 NaN = NaN"
| "times100 PosInf = PosInf"
| "times100 NegInf = NegInf"

fun Math_round :: "jsnum \<Rightarrow> jsnum" where
  "Math_round (Fin x) = Fin (of_int \<lfloor>x + 1 / 2\<rfloor>)"
| "Math_round NaN = NaN"
| "Math_round PosInf = PosInf"
| "Math_round NegInf = NegInf"

definition startsWith :: "string \<Rightarrow> string \<Rightarrow> bool" where
  "startsWith s p = (take (length p) s = p)"

text \<open>
  \<open>String.prototype.toLowerCase\<close> on the ASCII letters; other bytes are kept. No
  character outside ASCII has a lower-case form among the letters of \<open>png\<close>,
  \<open>jpeg\<close> and \<open>webp\<close>, so the test of the handler is not affected.
\<close>

definition lower_char :: "char \<Rightarrow> char" where
  "lower_char c =
     (let n = (of_char c :: nat)
      in if 65 \<le> n \<and> n \<le> 90 then char_of (n + 32) else c)"

definition toLowerCase :: "string \<Rightarrow> string" where
  "toLowerCase s = map lower_char s"

section \<open>DimensionHeuristic: \<open>extractSvgDimensions\<close>\<close>

definition is_digit :: "char \<Rightarrow> bool" where
  "is_digit c = (let n = (of_char c :: nat) in 48 \<le> n \<and> n \<le> 57)"

definition digit_val :: "char \<Rightarrow> nat" where
  "digit_val c = of_char c - 48"

definition digits_value :: "string \<Rightarrow> nat" where
  "digits_value ds = foldl (\<lambda>a c. 10 * a + digit_val c) 0 ds"

text \<open>
  The capture group \<open>(\d+(?:\.\d+)?)\<close> at the start of a text: the longest run of
  digits, and a fraction when a dot and at least one digit follow. Both quantifiers are
  greedy and nothing after the group can fail, so the longest reading is the match.
\<close>

definition number_prefix :: "string \<Rightarrow> string option" where
  "number_prefix t =
     (let ds = takeWhile is_digit t; r = dropWhile is_digit t
      in if ds = [] then None
         else (case r of
                 [] \<Rightarrow> Some ds
               | c # r' \<Rightarrow>
                   if c = CHR ''.'' \<and> takeWhile is_digit r' \<noteq> []
                   then Some (ds @ [c] @ takeWhile is_digit r')
                   else Some ds))"

text \<open>
  The regular expression \<open>/key="?(\d+(?:\.\d+)?)"?/\<close> tried at the start of a text:
  the literal \<open>key=\<close>, an optional double quote, the number. The closing quote is
  optional and changes nothing in the capture. When the quote is there and no digit
  follows it, retrying without the quote fails as well (a quote is not a digit).
\<close>

definition skip_quote :: "string \<Rightarrow> string" where
  "skip_quote r = (if startsWith r [CHR 0x22] then tl r else r)"

definition match_here :: "string \<Rightarrow> string \<Rightarrow> string option" where
  "match_here key t =
     (if startsWith t (key @ ''='')
      then number_prefix (skip_quote (drop (length key + 1) t))
      else None)"

text \<open>
  \<open>text.match(regex)\<close> without the \<open>g\<close> flag: the leftmost position where the
  expression matches; the result is capture group 1, \<open>None\<close> for \<open>null\<close>.
\<close>

fun regex_match :: "string \<Rightarrow> string \<Rightarrow> string option" where
  "regex_match key [] = match_here key []"
| "regex_match key (c # cs) =
     (case match_here key (c # cs) of
        Some g \<Rightarrow> Some g
      | None \<Rightarrow> regex_match key cs)"

text \<open>
  \<open>parseFloat\<close> on a captured text, which is digits with an optional fraction, as
  the exact decimal number; JavaScript returns the nearest double, and \<open>Infinity\<close>
  for a run of digits beyond the range of doubles.
\<close>

definition parseFloat :: "string \<Rightarrow> real" where
  "parseFloat s =
     (let ip = takeWhile is_digit s;
          fr = (case dropWhile is_digit s of
                  [] \<Rightarrow> []
                | c # r \<Rightarrow> if c = CHR ''.'' then takeWhile is_digit r else [])
      in real (digits_value ip) + real (digits_value fr) / 10 ^ length fr)"

record dimensions =
  dim_width :: real
  dim_height :: real

definition extractSvgDimensions :: "string \<Rightarrow> dimensions" where
  "extractSvgDimensions svgString =
     (let widthMatch = regex_match ''width'' svgString;
          heightMatch = regex_match ''height'' svgString
      in \<lparr> dim_width = (case widthMatch of Some g \<Rightarrow> parseFloat g | None \<Rightarrow> 300),
           dim_height = (case heightMatch of Some g \<Rightarrow> parseFloat g | None \<Rightarrow> 150) \<rparr>)"

text \<open>
  The same result described by positions: \<open>numeric_at key text i\<close> says that at
  position \<open>i\<close> of the text stand \<open>key=\<close>, possibly a double quote, and a digit;
  \<open>first_number\<close> is the decimal number at the first such position.
\<close>

definition numeric_at :: "string \<Rightarrow> string \<Rightarrow> nat \<Rightarrow> bool" where
  "numeric_at key text i =
     (startsWith (drop i text) (key @ ''='') \<and>
      (case skip_quote (drop (i + length key + 1) text) of
         [] \<Rightarrow> False
       | c # _ \<Rightarrow> is_digit c))"

definition number_at :: "string \<Rightarrow> string \<Rightarrow> nat \<Rightarrow> real" where
  "number_at key text i = parseFloat (skip_quote (drop (i + length key + 1) text))"

definition first_number :: "string \<Rightarrow> string \<Rightarrow> real option" where
  "first_number key text =
     (case find (numeric_at key text) [0..<length text] of
        None \<Rightarrow> None
      | Some i \<Rightarrow> Some (number_at key text i))"

text \<open>Whether the text \<open>p\<close> occurs somewhere in \<open>text\<close>.\<close>

definition occurs_in :: "string \<Rightarrow> string \<Rightarrow> bool" where
  "occurs_in p text = list_ex (\<lambda>i. startsWith (drop i text) p) [0..<Suc (length text)]"

section \<open>FallbackTransport: \<open>svgDataUriToString\<close>\<close>

text \<open>\<open>s.split(sep)\<close> for a one-character separator: always at least one piece.\<close>

fun split_js :: "char \<Rightarrow> string \<Rightarrow> string list" where
  "split_js sep [] = [[]]"
| "split_js sep (c # cs) =
     (if c = sep then [] # split_js sep cs
      else (case split_js sep cs of
              [] \<Rightarrow> [[c]]
            | x # xs \<Rightarrow> (c # x) # xs))"

text \<open>
  \<open>decodeURIComponent\<close>. First every \<open>%XY\<close> becomes an octet (a percent sign
  without two hexadecimal digits is a \<open>URIError\<close>, here \<open>None\<close>); then the octets
  must spell well-formed UTF-8, each continuation octet escaped as well.
\<close>

definition hex_val :: "char \<Rightarrow> nat option" where
  "hex_val c =
     (let n = (of_char c :: nat)
      in if 48 \<le> n \<and> n \<le> 57 then Some (n - 48)
         else if 65 \<le> n \<and> n \<le> 70 then Some (n - 55)
         else if 97 \<le> n \<and> n \<le> 102 then Some (n - 87)
         else None)"

datatype uri_token = Lit char | Octet nat

fun uri_tokens :: "string \<Rightarrow> uri_token list option" where
  "uri_tokens [] = Some []"
| "uri_tokens [c] = (if c = CHR ''%'' then None else Some [Lit c])"
| "uri_tokens [c, d] =
     (if c = CHR ''%'' then None
      else (case uri_tokens [d] of None \<Rightarrow> None | Some ts \<Rightarrow> Some (Lit c # ts)))"
| "uri_tokens (c # h1 # h2 # cs) =
     (if c = CHR ''%''
      then (case (hex_val h1, hex_val h2) of
              (Some a, Some b) \<Rightarrow>
                (case uri_tokens cs of None \<Rightarrow> None | Some ts \<Rightarrow> Some (Octet (16 * a + b) # ts))
            | _ \<Rightarrow> None)
      else (case uri_tokens (h1 # h2 # cs) of None \<Rightarrow> None | Some ts \<Rightarrow> Some (Lit c # ts)))"

text \<open>The number of octets of the UTF-8 sequence a lead octet opens (0: not a lead).\<close>

definition utf8_len :: "nat \<Rightarrow> nat" where
  "utf8_len b =
     (if b < 128 then 1
      else if 194 \<le> b \<and> b < 224 then 2
      else if 224 \<le> b \<and> b < 240 then 3
      else if 240 \<le> b \<and> b < 245 then 4
      else 0)"

fun octets_of :: "uri_token list \<Rightarrow> nat list option" where
  "octets_of [] = Some []"
| "octets_of (Lit c # ts) = None"
| "octets_of (Octet b # ts) =
     (case octets_of ts of None \<Rightarrow> None | Some bs \<Rightarrow> Some (b # bs))"

text \<open>
  Well-formed continuation octets after lead \<open>b\<close>: each in \<open>80..BF\<close>, the first one
  narrowed so that overlong forms, the range \<open>D800..DFFF\<close> and code points above
  \<open>10FFFF\<close> are out.
\<close>

definition utf8_tail_ok :: "nat \<Rightarrow> nat list \<Rightarrow> bool" where
  "utf8_tail_ok b bs =
     (list_all (\<lambda>x. 128 \<le> x \<and> x < 192) bs \<and>
      (case bs of
         [] \<Rightarrow> True
       | x # _ \<Rightarrow>
           if b = 224 then 160 \<le> x
           else if b = 237 then x < 160
           else if b = 240 then 144 \<le> x
           else if b = 244 then x < 144
           else True))"

fun utf8_decode :: "uri_token list \<Rightarrow> string option" where
  "utf8_decode [] = Some []"
| "utf8_decode (Lit c # ts) =
     (case utf8_decode ts of None \<Rightarrow> None | Some s \<Rightarrow> Some (c # s))"
| "utf8_decode (Octet b # ts) =
     (let n = utf8_len b
      in if n = 0 \<or> length ts < n - 1 then None
         else (case octets_of (take (n - 1) ts) of
                 None \<Rightarrow> None
               | Some bs \<Rightarrow>
                   if utf8_tail_ok b bs
                   then (case utf8_decode (drop (n - 1) ts) of
                           None \<Rightarrow> None
                         | Some s \<Rightarrow> Some (map char_of (b # bs) @ s))
                   else None))"

definition decodeURIComponent :: "string \<Rightarrow> string option" where
  "decodeURIComponent s =
     (case uri_tokens s of None \<Rightarrow> None | Some ts \<Rightarrow> utf8_decode ts)"

text \<open>
  \<open>svgDataUriToString\<close>: \<open>split(',')[1]\<close> is the piece between the first and the
  second comma. With no comma it is \<open>undefined\<close>, which \<open>decodeURIComponent\<close>
  turns into the text \<open>undefined\<close>. A \<open>URIError\<close> is caught and the piece kept.
\<close>

definition svgDataUriToString :: "string \<Rightarrow> string" where
  "svgDataUriToString svgDataUri =
     (if \<not> startsWith svgDataUri ''data:image/svg+xml'' then svgDataUri
      else (case split_js (CHR '','') svgDataUri of
              _ # svgString # _ \<Rightarrow>
                (case decodeURIComponent svgString of
                   Some decoded \<Rightarrow> decoded
                 | None \<Rightarrow> svgString)
            | _ \<Rightarrow> ''undefined''))"

section \<open>The browser, the file system and the console\<close>

text \<open>
  A thrown value: the name of its constructor and its message. The error raised inside
  the page by \<open>page.evaluate\<close> reaches the caller with the same message.
\<close>

datatype exn = Exn (ctor_name: string) (message: string)

text \<open>
  A loaded document is a tree of elements; each carries its tag name and the width and
  height of its \<open>getBoundingClientRect()\<close>.
\<close>

datatype element =
  Element (tagName: string) (rect_width: real) (rect_height: real) (children: "element list")

text \<open>
  \<open>document.querySelector\<close> with a type selector: the first element in document
  order (an element before its descendants, these before its later siblings).
\<close>

fun querySelector :: "string \<Rightarrow> element \<Rightarrow> element option"
  and querySelector_list :: "string \<Rightarrow> element list \<Rightarrow> element option" where
  "querySelector sel (Element t w h cs) =
     (if t = sel then Some (Element t w h cs) else querySelector_list sel cs)"
| "querySelector_list sel [] = None"
| "querySelector_list sel (c # cs) =
     (case querySelector sel c of
        Some e \<Rightarrow> Some e
      | None \<Rightarrow> querySelector_list sel cs)"

record options =
  outputType :: "string option"
  outputPath :: "string option"
  quality :: "jsnum option"
  deviceScaleFactor :: "jsnum option"
  timeout :: "jsnum option"

record screenshotOptions =
  shot_type :: string
  fullPage :: bool
  omitBackground :: bool
  shot_quality :: "jsnum option"

record viewport =
  vp_width :: int
  vp_height :: int
  vp_deviceScaleFactor :: jsnum

record renderResult =
  buffer :: string
  width :: int
  height :: int
  format :: string
  path :: "string option"
  debugPath :: string

text \<open>What a call does outside itself, in the order it does it.\<close>

datatype event =
    Launch
  | NewPage
  | MkdirSync string
  | WriteFile string string
  | ConsoleLog string
  | ConsoleError string
  | SetContent string jsnum
  | Evaluate
  | SetViewport viewport
  | Screenshot screenshotOptions
  | Close

text \<open>
  The world a call runs in: for each operation of Puppeteer and of \<open>fs\<close>, whether it
  throws (\<open>Some e\<close>, \<open>Inl e\<close>) or what it returns. \<open>dirname_parent\<close> is
  \<open>path.resolve(__dirname, '..')\<close> and \<open>now_iso\<close> is \<open>new Date().toISOString()\<close>.
\<close>

record world =
  puppeteer_installed :: bool
  launch :: "exn option"
  newPage :: "exn option"
  dirname_parent :: string
  existsSync :: "string \<Rightarrow> bool"
  mkdirSync :: "string \<Rightarrow> exn option"
  writeFile :: "string \<Rightarrow> string \<Rightarrow> exn option"
  now_iso :: string
  setContent :: "string \<Rightarrow> jsnum \<Rightarrow> exn + element"
  setViewport :: "viewport \<Rightarrow> exn option"
  screenshot :: "element \<Rightarrow> viewport \<Rightarrow> screenshotOptions \<Rightarrow> exn + string"
  close :: "exn option"

text \<open>
  A step of an \<open>async\<close> function: its outcome (\<open>Inl\<close> a thrown value) and the events
  it caused. \<open>then_step\<close> is \<open>await\<close> followed by the rest: a throw skips the rest.
\<close>

type_synonym 'a step = "(exn + 'a) \<times> event list"

definition then_step :: "'a step \<Rightarrow> ('a \<Rightarrow> 'b step) \<Rightarrow> 'b step" where
  "then_step m f =
     (case m of
        (Inl e, tr) \<Rightarrow> (Inl e, tr)
      | (Inr x, tr) \<Rightarrow> (case f x of (r, tr') \<Rightarrow> (r, tr @ tr')))"

definition pure :: "'a \<Rightarrow> 'a step" where
  "pure x = (Inr x, [])"

definition call :: "event \<Rightarrow> exn option \<Rightarrow> unit step" where
  "call ev r = ((case r of None \<Rightarrow> Inr () | Some e \<Rightarrow> Inl e), [ev])"

definition call_val :: "event \<Rightarrow> exn + 'a \<Rightarrow> 'a step" where
  "call_val ev r = (r, [ev])"

section \<open>PageRenderer: \<open>renderSvgFullPage\<close>\<close>

definition nl :: string where
  "nl = [CHR 0x0A]"

definition htmlStyle :: string where
  \<open>htmlStyle =
     ''<!DOCTYPE html>'' @ nl @
     ''<html>'' @ nl @
     ''<head>'' @ nl @
     ''<meta charset="UTF-8" />'' @ nl @
     ''<meta name="viewport" content="width=device-width, initial-scale=1.0" />'' @ nl @
     ''<style>'' @ nl @
     ''* {'' @ nl @
     ''  margin: 0;'' @ nl @
     ''  padding: 0;'' @ nl @
     ''  box-sizing: border-box;'' @ nl @
     ''}'' @ nl @
     ''html, body {'' @ nl @
     ''  width: 100%;'' @ nl @
     ''  height: 100%;'' @ nl @
     ''  background: transparent;'' @ nl @
     ''  display: flex;'' @ nl @
     ''  align-items: center;'' @ nl @
     ''  justify-content: center;'' @ nl @
     ''  overflow: hidden;'' @ nl @
     ''}'' @ nl @
     ''svg {'' @ nl @
     ''  display: block;'' @ nl @
     ''  max-width: 100vw;'' @ nl @
     ''  max-height: 100vh;'' @ nl @
     ''}'' @ nl @
     ''</style>'' @ nl @
     ''</head>'' @ nl @
     ''<body>''\<close>

definition html_of :: "string \<Rightarrow> string" where
  "html_of svgString = htmlStyle @ svgString @ ''</body>'' @ nl @ ''</html>''"

text \<open>\<open>initPuppeteer\<close>: \<open>require\<close> either finds the module or the function throws.\<close>

definition initPuppeteer :: "world \<Rightarrow> exn + unit" where
  "initPuppeteer w =
     (if puppeteer_installed w then Inr ()
      else Inl (Exn ''Error''
             (''Puppeteer is not installed.'' @ nl @ ''Run: npm install puppeteer'')))"

text \<open>The function passed to \<open>page.evaluate\<close>, run on the loaded document.\<close>

definition boundingBox_of :: "element \<Rightarrow> exn + real \<times> real" where
  "boundingBox_of document =
     (case querySelector ''svg'' document of
        None \<Rightarrow> Inl (Exn ''Error'' ''SVG element not found'')
      | Some svg \<Rightarrow> Inr (max (rect_width svg) 1, max (rect_height svg) 1))"

text \<open>The options handed to \<open>page.screenshot\<close>.\<close>

definition screenshotOptions_of :: "options \<Rightarrow> screenshotOptions" where
  "screenshotOptions_of opts =
     (let outputType = str_or (outputType opts) ''png''
      in \<lparr> shot_type = outputType, fullPage = True, omitBackground = True,
           shot_quality =
             (if outputType = ''jpeg''
              then Some (Math_round (times100 (num_or (quality opts) (Fin 1))))
              else None) \<rparr>)"

definition timestamp_of :: "string \<Rightarrow> string" where
  "timestamp_of isoString =
     map (\<lambda>c. if c = CHR '':'' \<or> c = CHR ''.'' then CHR ''-'' else c) isoString"

text \<open>
  The \<open>try\<close> block. The texts written to the console are shortened to their fixed
  part; the sizes they report are not modelled.
\<close>

definition render_try :: "world \<Rightarrow> string \<Rightarrow> options \<Rightarrow> renderResult step" where
  "render_try w svgString opts =
     then_step (call NewPage (newPage w)) (\<lambda>_.
     let dims = extractSvgDimensions svgString;
         tempDir = dirname_parent w @ ''/temp''
     in
     then_step (if \<not> existsSync w tempDir
                then call (MkdirSync tempDir) (mkdirSync w tempDir)
                else pure ()) (\<lambda>_.
     let timestamp = timestamp_of (now_iso w) in
     then_step (call (ConsoleLog ''SVG received'') None) (\<lambda>_.
     let html = html_of svgString;
         htmlPath = tempDir @ ''/html-'' @ timestamp @ ''.html''
     in
     then_step (call (WriteFile htmlPath html) (writeFile w htmlPath html)) (\<lambda>_.
     then_step (call (ConsoleLog ''HTML saved'') None) (\<lambda>_.
     let t = num_or (timeout opts) (Fin 30000) in
     then_step (call_val (SetContent html t) (setContent w html t)) (\<lambda>document.
     then_step (call_val Evaluate (boundingBox_of document)) (\<lambda>boundingBox.
     let finalWidth = \<lceil>fst boundingBox\<rceil>;
         finalHeight = \<lceil>snd boundingBox\<rceil>;
         vp = \<lparr> vp_width = finalWidth, vp_height = finalHeight,
                 vp_deviceScaleFactor = num_or (deviceScaleFactor opts) (Fin 2) \<rparr>
     in
     then_step (call (SetViewport vp) (setViewport w vp)) (\<lambda>_.
     let outputType = str_or (outputType opts) ''png'';
         so = screenshotOptions_of opts
     in
     then_step (call_val (Screenshot so) (screenshot w document vp so)) (\<lambda>buffer.
     then_step (case outputPath opts of
                  None \<Rightarrow> pure None
                | Some p \<Rightarrow>
                    if p = [] then pure None
                    else then_step (call (WriteFile p buffer) (writeFile w p buffer))
                           (\<lambda>_. pure (Some p))) (\<lambda>savedPath.
     let debugPath = tempDir @ ''/png-'' @ timestamp @ ''.'' @ outputType in
     then_step (call (WriteFile debugPath buffer) (writeFile w debugPath buffer)) (\<lambda>_.
     then_step (call (ConsoleLog ''PNG saved'') None) (\<lambda>_.
     pure \<lparr> buffer = buffer, width = finalWidth, height = finalHeight,
            format = outputType, path = savedPath, debugPath = debugPath \<rparr>))))))))))))"

text \<open>
  The whole function: \<open>launch\<close> is outside the \<open>try\<close>; \<open>finally\<close> closes the
  browser whatever the block did, and a throw of \<open>close\<close> replaces the outcome.
\<close>

definition renderSvgFullPage :: "world \<Rightarrow> string \<Rightarrow> options \<Rightarrow> renderResult step" where
  "renderSvgFullPage w svgString opts =
     (case initPuppeteer w of
        Inl e \<Rightarrow> (Inl e, [])
      | Inr _ \<Rightarrow>
          (case launch w of
             Some e \<Rightarrow> (Inl e, [Launch])
           | None \<Rightarrow>
               (case render_try w svgString opts of
                  (r, tr) \<Rightarrow>
                    (case close w of
                       None \<Rightarrow> (r, Launch # tr @ [Close])
                     | Some e \<Rightarrow> (Inl e, Launch # tr @ [Close])))))"

section \<open>FallbackService: the handler of \<open>POST /render\<close>\<close>

text \<open>
  The parsed request. A field of the body is \<open>None\<close> when it is \<open>undefined\<close>;
  \<open>svg\<close> and \<open>outputType\<close> are texts, and a numeric field holds
  \<open>Number(field)\<close>. \<open>req_file\<close> is the buffer of the uploaded \<open>svg\<close> part, read
  as UTF-8.
\<close>

record body =
  body_svg :: "string option"
  body_outputType :: "string option"
  body_quality :: "jsnum option"
  body_deviceScaleFactor :: "jsnum option"
  body_timeout :: "jsnum option"

record request =
  req_file :: "string option"
  req_body :: "body option"

datatype header_value = HStr string | HNum int

datatype payload = Json "(string \<times> string) list" | Binary string

record response =
  status :: nat
  headers :: "(string \<times> header_value) list"
  payload :: payload

text \<open>\<open>req.body && req.body.field\<close>.\<close>

definition body_field :: "(body \<Rightarrow> 'a option) \<Rightarrow> request \<Rightarrow> 'a option" where
  "body_field f req = (case req_body req of None \<Rightarrow> None | Some b \<Rightarrow> f b)"

definition req_svg :: "request \<Rightarrow> string option" where
  "req_svg req =
     (case req_file req of
        Some buf \<Rightarrow> Some buf
      | None \<Rightarrow> body_field body_svg req)"

definition req_outputType :: "request \<Rightarrow> string" where
  "req_outputType req =
     (case body_field body_outputType req of
        None \<Rightarrow> ''png''
      | Some s \<Rightarrow> if s = [] then ''png'' else toLowerCase s)"

text \<open>\<open>parsedX\<close>: the number when the field is defined, \<open>NaN\<close> otherwise.\<close>

definition parsed :: "(body \<Rightarrow> jsnum option) \<Rightarrow> request \<Rightarrow> jsnum" where
  "parsed f req = (case body_field f req of None \<Rightarrow> NaN | Some n \<Rightarrow> n)"

fun positive :: "jsnum \<Rightarrow> bool" where
  "positive (Fin x) = (0 < x)"
| "positive PosInf = True"
| "positive NegInf = False"
| "positive NaN = False"

definition req_options :: "request \<Rightarrow> options" where
  "req_options req =
     (let parsedQuality = parsed body_quality req;
          parsedScale = parsed body_deviceScaleFactor req;
          parsedTimeout = parsed body_timeout req
      in \<lparr> outputType = Some (req_outputType req),
           outputPath = None,
           quality = Some (if isFinite parsedQuality then parsedQuality else Fin 1),
           deviceScaleFactor =
             Some (if isFinite parsedScale \<and> positive parsedScale then parsedScale else Fin 2),
           timeout =
             Some (if isFinite parsedTimeout \<and> positive parsedTimeout
                   then parsedTimeout else Fin 30000) \<rparr>)"

text \<open>
  The two messages of the validation, as the UTF-8 bytes of the Korean texts of the
  source (in English: the SVG string is required, in the field \<open>svg\<close>; and
  \<open>outputType\<close> must be one of \<open>png\<close>, \<open>jpeg\<close>, \<open>webp\<close>).
\<close>

definition msg_svg_required :: string where
  "msg_svg_required =
     ''SVG '' @
     [CHR 0xEB, CHR 0xAC, CHR 0xB8, CHR 0xEC, CHR 0x9E, CHR 0x90,
      CHR 0xEC, CHR 0x97, CHR 0xB4, CHR 0xEC, CHR 0x9D, CHR 0xB4] @
     '' '' @
     [CHR 0xED, CHR 0x95, CHR 0x84, CHR 0xEC, CHR 0x9A, CHR 0x94,
      CHR 0xED, CHR 0x95, CHR 0xA9, CHR 0xEB, CHR 0x8B, CHR 0x88,
      CHR 0xEB, CHR 0x8B, CHR 0xA4] @
     '' (svg '' @
     [CHR 0xED, CHR 0x95, CHR 0x84, CHR 0xEB, CHR 0x93, CHR 0x9C] @
     '')''"

definition msg_bad_outputType :: string where
  "msg_bad_outputType =
     ''outputType'' @
     [CHR 0xEC, CHR 0x9D, CHR 0x80] @
     '' png, jpeg, webp '' @
     [CHR 0xEC, CHR 0xA4, CHR 0x91] @
     '' '' @
     [CHR 0xED, CHR 0x95, CHR 0x98, CHR 0xEB, CHR 0x82, CHR 0x98,
      CHR 0xEC, CHR 0x97, CHR 0xAC, CHR 0xEC, CHR 0x95, CHR 0xBC] @
     '' '' @
     [CHR 0xED, CHR 0x95, CHR 0xA9, CHR 0xEB, CHR 0x8B, CHR 0x88,
      CHR 0xEB, CHR 0x8B, CHR 0xA4]"

definition bad_request :: "string \<Rightarrow> response" where
  "bad_request msg = \<lparr> status = 400, headers = [], payload = Json [(''error'', msg)] \<rparr>"

definition render_handler :: "world \<Rightarrow> request \<Rightarrow> response \<times> event list" where
  "render_handler w req =
     (let outputType = req_outputType req
      in case req_svg req of
           None \<Rightarrow> (bad_request msg_svg_required, [])
         | Some svg \<Rightarrow>
             if svg = [] then (bad_request msg_svg_required, [])
             else if outputType \<notin> set [''png'', ''jpeg'', ''webp'']
             then (bad_request msg_bad_outputType, [])
             else (case then_step (call (ConsoleLog ''render request'') None)
                          (\<lambda>_. renderSvgFullPage w svg (req_options req)) of
                     (Inr result, tr) \<Rightarrow>
                       (\<lparr> status = 200,
                          headers = [(''Content-Type'', HStr (''image/'' @ format result)),
                                     (''X-Image-Width'', HNum (width result)),
                                     (''X-Image-Height'', HNum (height result)),
                                     (''X-Image-Format'', HStr (format result))],
                          payload = Binary (buffer result) \<rparr>,
                        tr @ [ConsoleLog ''done''])
                   | (Inl error, tr) \<Rightarrow>
                       (\<lparr> status = 500, headers = [],
                          payload = Json [(''error'', message error),
                                          (''type'', ctor_name error)] \<rparr>,
                        tr @ [ConsoleError (message error)])))"

definition json_keys :: "payload \<Rightarrow> string list" where
  "json_keys p = (case p of Json kvs \<Rightarrow> map fst kvs | Binary _ \<Rightarrow> [])"

section \<open>Sample worlds and inputs\<close>

text \<open>A world in which every operation succeeds and the page loads \<open>document\<close>.\<close>

definition world_ok :: "element \<Rightarrow> world" where
  "world_ok document =
     \<lparr> puppeteer_installed = True, launch = None, newPage = None,
       dirname_parent = ''/app'', existsSync = (\<lambda>_. True), mkdirSync = (\<lambda>_. None),
       writeFile = (\<lambda>_ _. None), now_iso = ''2024-01-02T03:04:05.678Z'',
       setContent = (\<lambda>_ _. Inr document), setViewport = (\<lambda>_. None),
       screenshot = (\<lambda>_ _ so. Inr (''IMG:'' @ shot_type so)), close = None \<rparr>"


text \<open>The loaded shell around the elements \<open>es\<close> that the markup produced.\<close>

definition shell :: "element list \<Rightarrow> element" where
  "shell es =
     Element ''html'' 800 600
       [Element ''head'' 0 0
          [Element ''meta'' 0 0 [], Element ''meta'' 0 0 [], Element ''style'' 0 0 []],
        Element ''body'' 800 600 es]"

definition no_options :: options where
  "no_options = \<lparr> outputType = None, outputPath = None, quality = None,
                  deviceScaleFactor = None, timeout = None \<rparr>"

text \<open>An SVG whose attributes say 40 by 20 and whose rendered box is 40.5 by 0.\<close>

definition svg_40_20 :: string where
  \<open>svg_40_20 = ''<svg width="40" height="20"></svg>''\<close>

definition doc_collapsed :: element where
  "doc_collapsed = shell [Element ''svg'' (81 / 2) 0 []]"

text \<open>Markup whose root is a \<open>div\<close>, with an \<open>svg\<close> inside, and markup with none.\<close>

definition markup_div_svg :: string where
  \<open>markup_div_svg = ''<div><svg></svg></div>''\<close>

definition doc_div_svg :: element where
  "doc_div_svg = shell [Element ''div'' 800 150 [Element ''svg'' 300 150 []]]"

definition markup_div :: string where
  \<open>markup_div = ''<div>hello</div>''\<close>

definition doc_div :: element where
  "doc_div = shell [Element ''div'' 800 18 []]"

definition empty_body :: body where
  "empty_body = \<lparr> body_svg = None, body_outputType = None, body_quality = None,
                  body_deviceScaleFactor = None, body_timeout = None \<rparr>"

text \<open>Sample requests: JSON bodies with and without the fields.\<close>

definition json_request :: "body \<Rightarrow> request" where
  "json_request b = \<lparr> req_file = None, req_body = Some b \<rparr>"

definition request_of_type :: "string \<Rightarrow> request" where
  "request_of_type t =
     json_request (empty_body \<lparr> body_svg := Some svg_40_20, body_outputType := Some t \<rparr>)"

section \<open>Predicates used in the statements\<close>

text \<open>The calls that change the file system.\<close>

fun fs_write :: "event \<Rightarrow> bool" where
  "fs_write (WriteFile p c) = True"
| "fs_write (MkdirSync p) = True"
| "fs_write _ = False"

text \<open>
  Every step before the measurement succeeds: the module loads, the browser and the page
  open, the directory and the file of the debug output are written, the page loads.
\<close>

definition reaches_measure :: "world \<Rightarrow> string \<Rightarrow> options \<Rightarrow> bool" where
  "reaches_measure w svgString opts =
     (let tempDir = dirname_parent w @ ''/temp'';
          htmlPath = tempDir @ ''/html-'' @ timestamp_of (now_iso w) @ ''.html''
      in puppeteer_installed w \<and> launch w = None \<and> newPage w = None \<and>
         (existsSync w tempDir \<or> mkdirSync w tempDir = None) \<and>
         writeFile w htmlPath (html_of svgString) = None \<and>
         (case setContent w (html_of svgString) (num_or (timeout opts) (Fin 30000)) of
            Inl _ \<Rightarrow> False
          | Inr _ \<Rightarrow> True))"

text \<open>A request that the validation of the handler turns down.\<close>

definition invalid_request :: "request \<Rightarrow> bool" where
  "invalid_request req =
     (req_svg req = None \<or> req_svg req = Some [] \<or>
      req_outputType req \<notin> set [''png'', ''jpeg'', ''webp''])"

section \<open>DimensionHeuristic: what \<open>extractSvgDimensions\<close> returns\<close>

lemma find_map_Suc:
  "find P (map Suc xs) = map_option Suc (find (\<lambda>i. P (Suc i)) xs)"
  by (induction xs) auto

lemma find_upt_Suc:
  "find P [0..<Suc n] =
     (if P 0 then Some 0 else map_option Suc (find (\<lambda>i. P (Suc i)) [0..<n]))"
proof -
  have "[0..<Suc n] = 0 # map Suc [0..<n]"
    by (simp add: upt_conv_Cons map_Suc_upt del: upt_Suc)
  then show ?thesis
    by (simp add: find_map_Suc del: upt_Suc)
qed

lemma takeWhile_takeWhile_append:
  "takeWhile P (takeWhile P t @ ys) = takeWhile P t @ takeWhile P ys"
  by (rule takeWhile_append2) (auto dest: set_takeWhileD)

lemma dropWhile_takeWhile_append:
  "dropWhile P (takeWhile P t @ ys) = dropWhile P ys"
  by (rule dropWhile_append2) (auto dest: set_takeWhileD)

lemma dot_not_digit: "\<not> is_digit CHR ''.''"
  by (simp add: is_digit_def)

text \<open>The captured text and the text it was captured from denote the same number.\<close>

lemma parseFloat_number_prefix:
  assumes "number_prefix t = Some g"
  shows "parseFloat g = parseFloat t"
proof -
  let ?ds = "takeWhile is_digit t"
  let ?r = "dropWhile is_digit t"
  have tw: "takeWhile is_digit ?ds = ?ds" and dw: "dropWhile is_digit ?ds = []"
    using takeWhile_takeWhile_append [of is_digit t "[]"]
          dropWhile_takeWhile_append [of is_digit t "[]"] by simp_all
  show ?thesis
  proof (cases ?r)
    case Nil
    with assms have "g = ?ds"
      by (simp add: number_prefix_def Let_def split: if_splits)
    moreover from Nil have "?ds = t"
      by simp
    ultimately show ?thesis by simp
  next
    case (Cons c r')
    show ?thesis
    proof (cases "c = CHR ''.'' \<and> takeWhile is_digit r' \<noteq> []")
      case True
      with assms Cons have g: "g = ?ds @ CHR ''.'' # takeWhile is_digit r'"
        by (simp add: number_prefix_def Let_def split: if_splits)
      have "takeWhile is_digit g = ?ds" "dropWhile is_digit g = CHR ''.'' # takeWhile is_digit r'"
        unfolding g
        by (simp_all add: takeWhile_takeWhile_append dropWhile_takeWhile_append dot_not_digit)
      with Cons True show ?thesis
        by (simp add: parseFloat_def Let_def)
    next
      case False
      with assms Cons have "g = ?ds"
        by (simp add: number_prefix_def Let_def split: if_splits)
      have "parseFloat ?ds = real (digits_value ?ds)"
        by (simp add: parseFloat_def Let_def tw dw digits_value_def)
      moreover from Cons False have "parseFloat t = real (digits_value ?ds)"
        by (auto simp: parseFloat_def Let_def digits_value_def)
      ultimately show ?thesis using \<open>g = ?ds\<close> by simp
    qed
  qed
qed

lemma numeric_at_Suc: "numeric_at key (c # cs) (Suc i) = numeric_at key cs i"
  by (simp add: numeric_at_def)

lemma number_at_Suc: "number_at key (c # cs) (Suc i) = number_at key cs i"
  by (simp add: number_at_def)

lemma match_here_numeric:
  "match_here key t =
     (if numeric_at key t 0 then number_prefix (skip_quote (drop (length key + 1) t)) else None)"
  by (auto simp: match_here_def numeric_at_def number_prefix_def Let_def split: list.splits)

lemma numeric_at_number_prefix:
  "numeric_at key t 0 \<Longrightarrow> \<exists>g. number_prefix (skip_quote (drop (length key + 1) t)) = Some g"
  by (auto simp: numeric_at_def number_prefix_def Let_def split: list.splits)

text \<open>The scan of the regular expression finds the number at the first position.\<close>

lemma regex_match_first_number:
  "map_option parseFloat (regex_match key str) = first_number key str"
proof (induction str)
  case Nil
  then show ?case
    by (simp add: first_number_def match_here_def startsWith_def)
next
  case (Cons c cs)
  show ?case
  proof (cases "numeric_at key (c # cs) 0")
    case True
    then obtain g where g: "number_prefix (skip_quote (drop (length key + 1) (c # cs))) = Some g"
      using numeric_at_number_prefix by blast
    with True show ?thesis
      using parseFloat_number_prefix [OF g]
      by (simp add: first_number_def find_upt_Suc match_here_numeric number_at_def del: upt_Suc)
  next
    case False
    with Cons show ?thesis
      by (simp add: first_number_def find_upt_Suc match_here_numeric numeric_at_Suc number_at_Suc
            option.map_comp comp_def del: upt_Suc split: option.splits)
  qed
qed

text \<open>
  Claim C8, as amended. For every text, the width is the decimal number (digits with an
  optional fraction) at the first position of the text where \<open>width=\<close>, an optional
  double quote and a digit stand, and 300 when there is no such position; the height
  is found the same way with \<open>height=\<close>, and is 150 when there is no such position.
  Each dimension is found and defaulted on its own; what follows the number (a unit, a
  closing quote or none) plays no part.
\<close>

theorem C8_extractSvgDimensions_first_numbers:
  "extractSvgDimensions str =
     \<lparr> dim_width = (case first_number ''width'' str of Some x \<Rightarrow> x | None \<Rightarrow> 300),
       dim_height = (case first_number ''height'' str of Some x \<Rightarrow> x | None \<Rightarrow> 150) \<rparr>"
  using regex_match_first_number [of \<open>''width''\<close> str]
        regex_match_first_number [of \<open>''height''\<close> str]
  by (auto simp: extractSvgDimensions_def Let_def split: option.splits)

text \<open>
  Claim C8 as stated fails on unquoted attributes: in \<open><svg width=500 height=100>\<close>
  neither \<open>width="\<close> nor \<open>height="\<close> occurs, so no \<open>width="..."\<close> or
  \<open>height="..."\<close> attribute is there and the claim gives 300 by 150; the function
  returns 500 by 100.
\<close>

theorem C8_counterexample:
  \<open>\<not> occurs_in ''width="'' ''<svg width=500 height=100>'' \<and>
   \<not> occurs_in ''height="'' ''<svg width=500 height=100>'' \<and>
   extractSvgDimensions ''<svg width=500 height=100>'' = \<lparr> dim_width = 500, dim_height = 100 \<rparr> \<and>
   extractSvgDimensions ''<svg width=500 height=100>'' \<noteq> \<lparr> dim_width = 300, dim_height = 150 \<rparr>\<close>
  by (simp add: occurs_in_def startsWith_def extractSvgDimensions_def match_here_def
        number_prefix_def skip_quote_def is_digit_def parseFloat_def digits_value_def
        digit_val_def upt_rec)

section \<open>Steps and their events\<close>

lemma fst_then_step:
  "fst (then_step m f) = (case fst m of Inl e \<Rightarrow> Inl e | Inr x \<Rightarrow> fst (f x))"
  by (cases m) (auto simp: then_step_def split: sum.splits prod.splits)

lemma snd_then_step:
  "snd (then_step m f) = (case fst m of Inl e \<Rightarrow> snd m | Inr x \<Rightarrow> snd m @ snd (f x))"
  by (cases m) (auto simp: then_step_def split: sum.splits prod.splits)

lemma fst_call: "fst (call ev r) = (case r of None \<Rightarrow> Inr () | Some e \<Rightarrow> Inl e)"
  by (simp add: call_def)

lemma snd_call: "snd (call ev r) = [ev]"
  by (simp add: call_def)

lemma fst_call_val: "fst (call_val ev r) = r"
  by (simp add: call_val_def)

lemma snd_call_val: "snd (call_val ev r) = [ev]"
  by (simp add: call_val_def)

lemma fst_pure: "fst (pure x) = Inr x"
  by (simp add: pure_def)

lemma snd_pure: "snd (pure x) = []"
  by (simp add: pure_def)

lemmas step_simps = fst_then_step snd_then_step fst_call snd_call fst_call_val snd_call_val
  fst_pure snd_pure

lemma then_step_Inr_iff:
  "then_step m f = (Inr y, tr) \<longleftrightarrow>
     (\<exists>x t1 t2. m = (Inr x, t1) \<and> f x = (Inr y, t2) \<and> tr = t1 @ t2)"
  by (cases m) (auto simp: then_step_def split: sum.splits prod.splits)

lemma call_Inr_iff: "call ev r = (Inr x, tr) \<longleftrightarrow> r = None \<and> tr = [ev]"
  by (auto simp: call_def split: option.splits)

lemma call_val_Inr_iff: "call_val ev r = (Inr x, tr) \<longleftrightarrow> r = Inr x \<and> tr = [ev]"
  by (auto simp: call_val_def)

lemma pure_Inr_iff: "pure x = (Inr y, tr) \<longleftrightarrow> y = x \<and> tr = []"
  by (auto simp: pure_def)

lemmas step_Inr_iffs = then_step_Inr_iff call_Inr_iff call_val_Inr_iff pure_Inr_iff

section \<open>PageRenderer: the result, the failures and the events of a render\<close>

text \<open>What a returned result says about the run that produced it.\<close>

lemma render_try_success:
  assumes "fst (render_try w svgString opts) = Inr res"
  shows "\<exists>document svg.
           setContent w (html_of svgString) (num_or (timeout opts) (Fin 30000)) = Inr document \<and>
           querySelector ''svg'' document = Some svg \<and>
           width res = \<lceil>max (rect_width svg) 1\<rceil> \<and>
           height res = \<lceil>max (rect_height svg) 1\<rceil> \<and>
           format res = str_or (outputType opts) ''png'' \<and>
           screenshot w document
             \<lparr> vp_width = width res, vp_height = height res,
               vp_deviceScaleFactor = num_or (deviceScaleFactor opts) (Fin 2) \<rparr>
             (screenshotOptions_of opts) = Inr (buffer res)"
  using assms
  by (auto simp: render_try_def Let_def step_simps boundingBox_of_def
           split: sum.splits option.splits if_splits)

lemma renderSvgFullPage_success:
  assumes "fst (renderSvgFullPage w svgString opts) = Inr res"
  shows "fst (render_try w svgString opts) = Inr res"
  using assms
  by (auto simp: renderSvgFullPage_def split: sum.splits option.splits prod.splits)

lemma render_try_events:
  "Launch \<notin> set (snd (render_try w svgString opts)) \<and>
   Close \<notin> set (snd (render_try w svgString opts))"
  by (simp add: render_try_def Let_def step_simps
           split: sum.splits option.splits if_splits)

text \<open>The files a run that returns a result has written, in order.\<close>

lemma render_try_writes:
  assumes "render_try w svgString opts = (Inr res, tr)"
  shows "filter fs_write tr =
           (if existsSync w (dirname_parent w @ ''/temp'') then []
            else [MkdirSync (dirname_parent w @ ''/temp'')]) @
           [WriteFile (dirname_parent w @ ''/temp/html-'' @ timestamp_of (now_iso w) @ ''.html'')
              (html_of svgString)] @
           (case path res of None \<Rightarrow> [] | Some p \<Rightarrow> [WriteFile p (buffer res)]) @
           [WriteFile (debugPath res) (buffer res)]"
  using assms
  by (auto simp: render_try_def Let_def step_Inr_iffs split: option.splits if_splits)

text \<open>Three runs, computed: a collapsed SVG, markup without an SVG, a chosen format.\<close>

lemma eval_render_collapsed:
  "renderSvgFullPage (world_ok doc_collapsed) svg_40_20 no_options =
     (Inr \<lparr> buffer = ''IMG:png'', width = 41, height = 1, format = ''png'', path = None,
            debugPath = ''/app/temp/png-2024-01-02T03-04-05-678Z.png'' \<rparr>,
      [Launch, NewPage, ConsoleLog ''SVG received'',
       WriteFile ''/app/temp/html-2024-01-02T03-04-05-678Z.html'' (html_of svg_40_20),
       ConsoleLog ''HTML saved'',
       SetContent (html_of svg_40_20) (Fin 30000),
       Evaluate,
       SetViewport \<lparr>vp_width = 41, vp_height = 1, vp_deviceScaleFactor = Fin 2\<rparr>,
       Screenshot \<lparr>shot_type = ''png'', fullPage = True, omitBackground = True,
         shot_quality = None\<rparr>,
       WriteFile ''/app/temp/png-2024-01-02T03-04-05-678Z.png'' ''IMG:png'',
       ConsoleLog ''PNG saved'', Close])"
  by (simp add: renderSvgFullPage_def render_try_def initPuppeteer_def world_ok_def
        doc_collapsed_def shell_def no_options_def then_step_def call_def call_val_def pure_def
        boundingBox_of_def screenshotOptions_of_def timestamp_of_def Let_def)

lemma eval_render_div:
  "renderSvgFullPage (world_ok doc_div) markup_div no_options =
     (Inl (Exn ''Error'' ''SVG element not found''),
      [Launch, NewPage, ConsoleLog ''SVG received'',
       WriteFile ''/app/temp/html-2024-01-02T03-04-05-678Z.html'' (html_of markup_div),
       ConsoleLog ''HTML saved'',
       SetContent (html_of markup_div) (Fin 30000),
       Evaluate, Close])"
  by (simp add: renderSvgFullPage_def render_try_def initPuppeteer_def world_ok_def
        doc_div_def shell_def no_options_def then_step_def call_def call_val_def pure_def
        boundingBox_of_def screenshotOptions_of_def timestamp_of_def Let_def)

lemma eval_render_collapsed_typed:
  assumes "t \<noteq> []"
  shows "renderSvgFullPage (world_ok doc_collapsed) svg_40_20
       \<lparr> outputType = Some t, outputPath = None,
         quality = Some (Fin 1), deviceScaleFactor = Some (Fin 2), timeout = Some (Fin 30000) \<rparr> =
     (Inr \<lparr> buffer = ''IMG:'' @ t, width = 41, height = 1, format = t, path = None,
            debugPath = ''/app/temp/png-2024-01-02T03-04-05-678Z.'' @ t \<rparr>,
      [Launch, NewPage, ConsoleLog ''SVG received'',
       WriteFile ''/app/temp/html-2024-01-02T03-04-05-678Z.html'' (html_of svg_40_20),
       ConsoleLog ''HTML saved'',
       SetContent (html_of svg_40_20) (Fin 30000),
       Evaluate,
       SetViewport \<lparr>vp_width = 41, vp_height = 1, vp_deviceScaleFactor = Fin 2\<rparr>,
       Screenshot \<lparr>shot_type = t, fullPage = True, omitBackground = True,
         shot_quality = (if t = ''jpeg'' then Some (Fin 100) else None)\<rparr>,
       WriteFile (''/app/temp/png-2024-01-02T03-04-05-678Z.'' @ t) (''IMG:'' @ t),
       ConsoleLog ''PNG saved'', Close])"
  using assms
  by (simp add: renderSvgFullPage_def render_try_def initPuppeteer_def world_ok_def
        doc_collapsed_def shell_def then_step_def call_def call_val_def pure_def
        boundingBox_of_def screenshotOptions_of_def timestamp_of_def Let_def)




text \<open>
  Claim C9. Whenever the module loads and \<open>puppeteer.launch\<close> succeeds, the events of
  the call are the launch, then events none of which is a launch or a close, then
  \<open>browser.close()\<close> as the last event before the call delivers its result or its
  error, whichever step failed or none.
\<close>

theorem C9_browser_closed_on_every_path:
  assumes "puppeteer_installed w" and "launch w = None"
  shows "\<exists>mid. snd (renderSvgFullPage w svgString opts) = Launch # mid @ [Close] \<and>
               Launch \<notin> set mid \<and> Close \<notin> set mid"
  using assms render_try_events [of w svgString opts]
  by (auto simp: renderSvgFullPage_def initPuppeteer_def split: option.splits prod.splits)

text \<open>An instance in which the measurement fails.\<close>

theorem C9_witness:
  "puppeteer_installed (world_ok doc_div) \<and> launch (world_ok doc_div) = None \<and>
   fst (renderSvgFullPage (world_ok doc_div) markup_div no_options) =
     Inl (Exn ''Error'' ''SVG element not found'') \<and>
   (\<exists>mid. snd (renderSvgFullPage (world_ok doc_div) markup_div no_options) =
            Launch # mid @ [Close] \<and> Launch \<notin> set mid \<and> Close \<notin> set mid)"
proof -
  have a: "puppeteer_installed (world_ok doc_div)" and b: "launch (world_ok doc_div) = None"
    by (simp_all add: world_ok_def)
  from C9_browser_closed_on_every_path [OF a b, of markup_div no_options] a b show ?thesis
    by (simp add: eval_render_div)
qed

lemma render_try_no_svg:
  assumes "\<forall>document.
             setContent w (html_of svgString) (num_or (timeout opts) (Fin 30000)) = Inr document
             \<longrightarrow> querySelector ''svg'' document = None"
  shows "(\<exists>e. fst (render_try w svgString opts) = Inl e) \<and>
         (\<forall>so. Screenshot so \<notin> set (snd (render_try w svgString opts)))"
  using assms
  by (simp add: render_try_def Let_def step_simps boundingBox_of_def
           split: sum.splits option.splits if_splits)

lemma render_try_not_found:
  assumes "\<forall>document.
             setContent w (html_of svgString) (num_or (timeout opts) (Fin 30000)) = Inr document
             \<longrightarrow> querySelector ''svg'' document = None"
    and "reaches_measure w svgString opts"
  shows "fst (render_try w svgString opts) = Inl (Exn ''Error'' ''SVG element not found'')"
  using assms
  by (auto simp: render_try_def reaches_measure_def Let_def step_simps boundingBox_of_def
           split: sum.splits option.splits if_splits)

text \<open>
  What the measurement does reject: when the document the page loads holds no \<open>svg\<close>
  element at any depth, the render never returns an image and takes no screenshot; and
  when every step before the measurement succeeds and the browser closes, the error it
  fails with is \<open>SVG element not found\<close>.
\<close>

lemma no_svg_element_fails:
  assumes "\<forall>document.
             setContent w (html_of svgString) (num_or (timeout opts) (Fin 30000)) = Inr document
             \<longrightarrow> querySelector ''svg'' document = None"
  shows "(\<exists>e. fst (renderSvgFullPage w svgString opts) = Inl e) \<and>
         (\<forall>so. Screenshot so \<notin> set (snd (renderSvgFullPage w svgString opts))) \<and>
         (reaches_measure w svgString opts \<and> close w = None \<longrightarrow>
            fst (renderSvgFullPage w svgString opts) =
              Inl (Exn ''Error'' ''SVG element not found''))"
proof -
  note t = render_try_no_svg [OF assms]
  have 1: "\<exists>e. fst (renderSvgFullPage w svgString opts) = Inl e"
    using t by (auto simp: renderSvgFullPage_def split: sum.splits option.splits prod.splits)
  have 2: "\<forall>so. Screenshot so \<notin> set (snd (renderSvgFullPage w svgString opts))"
    using t by (auto simp: renderSvgFullPage_def split: sum.splits option.splits prod.splits)
  have 3: "fst (renderSvgFullPage w svgString opts) =
             Inl (Exn ''Error'' ''SVG element not found'')"
    if "reaches_measure w svgString opts" "close w = None"
    using render_try_not_found [OF assms that(1)] that
    by (auto simp: renderSvgFullPage_def reaches_measure_def initPuppeteer_def Let_def
          split: sum.splits option.splits prod.splits)
  from 1 2 3 show ?thesis by blast
qed

text \<open>An instance: the markup \<open><div>hello</div>\<close>.\<close>

lemma no_svg_element_fails_instance:
  "setContent (world_ok doc_div) (html_of markup_div) (num_or (timeout no_options) (Fin 30000)) =
     Inr doc_div \<and>
   querySelector ''svg'' doc_div = None \<and>
   reaches_measure (world_ok doc_div) markup_div no_options \<and> close (world_ok doc_div) = None \<and>
   fst (renderSvgFullPage (world_ok doc_div) markup_div no_options) =
     Inl (Exn ''Error'' ''SVG element not found'') \<and>
   Screenshot (screenshotOptions_of no_options)
     \<notin> set (snd (renderSvgFullPage (world_ok doc_div) markup_div no_options))"
proof -
  have l: "setContent (world_ok doc_div) (html_of markup_div)
             (num_or (timeout no_options) (Fin 30000)) = Inr doc_div"
    by (simp add: world_ok_def)
  have q: "querySelector ''svg'' doc_div = None"
    by (simp add: doc_div_def shell_def)
  from l q have a: "\<forall>document.
      setContent (world_ok doc_div) (html_of markup_div)
        (num_or (timeout no_options) (Fin 30000)) = Inr document
      \<longrightarrow> querySelector ''svg'' document = None"
    by simp
  have b: "reaches_measure (world_ok doc_div) markup_div no_options"
    by (simp add: reaches_measure_def world_ok_def)
  have c: "close (world_ok doc_div) = None"
    by (simp add: world_ok_def)
  from no_svg_element_fails [OF a] l q b c show ?thesis
    by blast
qed

text \<open>
  Claim C2, which the code breaks: the markup \<open><div><svg></svg></div>\<close> has a root
  that is not an \<open>svg\<close> element, yet \<open>querySelector('svg')\<close> finds the element
  inside the \<open>div\<close>, measures it, and the render returns an image of 300 by 150
  where the claim has the render fail.
\<close>

theorem C2_inner_svg_is_rendered:
  "doc_div_svg = shell [Element ''div'' 800 150 [Element ''svg'' 300 150 []]] \<and>
   setContent (world_ok doc_div_svg) (html_of markup_div_svg) (Fin 30000) = Inr doc_div_svg \<and>
   fst (renderSvgFullPage (world_ok doc_div_svg) markup_div_svg no_options) =
     Inr \<lparr> buffer = ''IMG:png'', width = 300, height = 150, format = ''png'', path = None,
           debugPath = ''/app/temp/png-2024-01-02T03-04-05-678Z.png'' \<rparr>"
  by (simp add: renderSvgFullPage_def render_try_def initPuppeteer_def world_ok_def
        doc_div_svg_def shell_def no_options_def then_step_def call_def call_val_def pure_def
        boundingBox_of_def screenshotOptions_of_def timestamp_of_def Let_def)

text \<open>
  Claim C6, which the code breaks: a call that is given no \<open>outputPath\<close> still
  writes two files under the \<open>temp\<close> directory, the HTML shell and the captured
  image, where the claim has no file written.
\<close>

theorem C6_debug_files_written_by_default:
  "outputPath no_options = None \<and>
   filter fs_write (snd (renderSvgFullPage (world_ok doc_collapsed) svg_40_20 no_options)) =
     [WriteFile ''/app/temp/html-2024-01-02T03-04-05-678Z.html'' (html_of svg_40_20),
      WriteFile ''/app/temp/png-2024-01-02T03-04-05-678Z.png'' ''IMG:png'']"
proof -
  have "outputPath no_options = None"
    by (simp add: no_options_def)
  then show ?thesis
    by (simp add: eval_render_collapsed)
qed

text \<open>
  The same in general: the files written by any call that returns a result are the HTML
  shell, the caller's file when the result carries a path, and the captured image.
\<close>

lemma successful_render_writes:
  assumes "fst (renderSvgFullPage w svgString opts) = Inr res"
  shows "filter fs_write (snd (renderSvgFullPage w svgString opts)) =
           (if existsSync w (dirname_parent w @ ''/temp'') then []
            else [MkdirSync (dirname_parent w @ ''/temp'')]) @
           [WriteFile (dirname_parent w @ ''/temp/html-'' @ timestamp_of (now_iso w) @ ''.html'')
              (html_of svgString)] @
           (case path res of None \<Rightarrow> [] | Some p \<Rightarrow> [WriteFile p (buffer res)]) @
           [WriteFile (debugPath res) (buffer res)]"
proof -
  obtain r tr where rt: "render_try w svgString opts = (r, tr)"
    by (cases "render_try w svgString opts")
  with assms have r: "r = Inr res"
    and s: "snd (renderSvgFullPage w svgString opts) = Launch # tr @ [Close]"
    by (auto simp: renderSvgFullPage_def split: sum.splits option.splits)
  from rt r have "render_try w svgString opts = (Inr res, tr)"
    by simp
  from render_try_writes [OF this] s show ?thesis
    by simp
qed

section \<open>OutputEncoder: the options of the screenshot\<close>

text \<open>
  Claim C4, which the code breaks at quality 0: \<open>options.quality || 1\<close> takes 0
  for a missing value, so a JPEG asked for at quality 0 is captured at quality 100,
  where the claim has 0.
\<close>

theorem C4_jpeg_quality_zero_becomes_100:
  "shot_quality (screenshotOptions_of
     (no_options \<lparr> outputType := Some ''jpeg'', quality := Some (Fin 0) \<rparr>)) = Some (Fin 100) \<and>
   Screenshot \<lparr> shot_type = ''jpeg'', fullPage = True, omitBackground = True,
                shot_quality = Some (Fin 100) \<rparr>
     \<in> set (snd (renderSvgFullPage (world_ok doc_collapsed) svg_40_20
                   (no_options \<lparr> outputType := Some ''jpeg'', quality := Some (Fin 0) \<rparr>)))"
  by (simp add: renderSvgFullPage_def render_try_def initPuppeteer_def world_ok_def
        doc_collapsed_def shell_def no_options_def then_step_def call_def call_val_def pure_def
        boundingBox_of_def screenshotOptions_of_def timestamp_of_def Let_def)

text \<open>
  Everywhere else the mapping is the claimed one, in the exact arithmetic of the model
  (the product \<open>q * 100\<close> is not rounded to a double before \<open>Math.round\<close>).
\<close>

lemma jpeg_quality_scaled:
  assumes "str_or (outputType opts) ''png'' = ''jpeg''"
    and "quality opts = Some (Fin q)" and "q \<noteq> 0"
  shows "shot_quality (screenshotOptions_of opts) = Some (Fin (of_int \<lfloor>q * 100 + 1 / 2\<rfloor>))"
  using assms by (simp add: screenshotOptions_of_def)

lemma jpeg_quality_in_range:
  assumes "0 \<le> q" and "q \<le> 1"
  shows "0 \<le> \<lfloor>q * 100 + 1 / 2\<rfloor> \<and> \<lfloor>q * 100 + 1 / 2\<rfloor> \<le> 100"
proof -
  from assms have "0 \<le> q * 100 + 1 / 2" and "q * 100 + 1 / 2 < 101"
    by simp_all
  then have "0 \<le> \<lfloor>q * 100 + 1 / 2\<rfloor>" and "\<lfloor>q * 100 + 1 / 2\<rfloor> < 101"
    by (simp_all add: floor_less_iff)
  then show ?thesis by simp
qed

lemma other_formats_ignore_quality:
  assumes "str_or (outputType opts) ''png'' \<noteq> ''jpeg''"
  shows "screenshotOptions_of (opts \<lparr> quality := q \<rparr>) = screenshotOptions_of opts \<and>
         shot_quality (screenshotOptions_of opts) = None"
  using assms by (simp add: screenshotOptions_of_def)

section \<open>FallbackService: the responses of the handler\<close>

lemma handler_invalid:
  assumes "invalid_request req"
  shows "render_handler w req =
           (bad_request (if req_svg req = None \<or> req_svg req = Some [] then msg_svg_required
                         else msg_bad_outputType), [])"
  using assms
  by (auto simp: render_handler_def invalid_request_def Let_def split: option.splits)

lemma handler_valid:
  assumes "\<not> invalid_request req" and "req_svg req = Some svg"
  shows "render_handler w req =
           (case renderSvgFullPage w svg (req_options req) of
              (Inr result, tr) \<Rightarrow>
                (\<lparr> status = 200,
                   headers = [(''Content-Type'', HStr (''image/'' @ format result)),
                              (''X-Image-Width'', HNum (width result)),
                              (''X-Image-Height'', HNum (height result)),
                              (''X-Image-Format'', HStr (format result))],
                   payload = Binary (buffer result) \<rparr>,
                 ConsoleLog ''render request'' # tr @ [ConsoleLog ''done''])
            | (Inl error, tr) \<Rightarrow>
                (\<lparr> status = 500, headers = [],
                   payload = Json [(''error'', message error), (''type'', ctor_name error)] \<rparr>,
                 ConsoleLog ''render request'' # tr @ [ConsoleError (message error)]))"
  using assms
  by (auto simp: render_handler_def invalid_request_def Let_def then_step_def call_def
           split: option.splits sum.splits prod.splits)

lemma lower_gif: "toLowerCase ''gif'' = ''gif''"
  by code_simp

lemma lower_PNG: "toLowerCase ''PNG'' = ''png''"
  by code_simp

lemma lower_Jpeg: "toLowerCase ''Jpeg'' = ''jpeg''"
  by code_simp

lemma field_request_of_type: "body_field body_outputType (request_of_type t) = Some t"
  by (simp add: request_of_type_def json_request_def body_field_def empty_body_def)

lemma svg_request_of_type: "req_svg (request_of_type t) = Some svg_40_20"
  by (simp add: request_of_type_def json_request_def body_field_def empty_body_def req_svg_def)

lemma options_request_of_type:
  "req_options (request_of_type t) =
     \<lparr> outputType = Some (if t = [] then ''png'' else toLowerCase t), outputPath = None,
       quality = Some (Fin 1), deviceScaleFactor = Some (Fin 2), timeout = Some (Fin 30000) \<rparr>"
  by (simp add: req_options_def req_outputType_def parsed_def field_request_of_type)
     (simp add: request_of_type_def json_request_def body_field_def empty_body_def)

text \<open>
  Claim C3, as amended. For every request whose \<open>outputType\<close> field is a non-empty
  text that, put in lower case, is none of \<open>png\<close>, \<open>jpeg\<close>, \<open>webp\<close>, the handler
  answers with status 400 and a body that holds an error message, and causes no event at
  all: no browser is launched and \<open>renderSvgFullPage\<close> is not called.
\<close>

theorem C3_unsupported_outputType_rejected:
  assumes "body_field body_outputType req = Some t" and "t \<noteq> []"
    and "toLowerCase t \<notin> {''png'', ''jpeg'', ''webp''}"
  shows "status (fst (render_handler w req)) = 400 \<and>
         (\<exists>msg. payload (fst (render_handler w req)) = Json [(''error'', msg)]) \<and>
         snd (render_handler w req) = []"
proof -
  from assms have "req_outputType req \<notin> set [''png'', ''jpeg'', ''webp'']"
    by (simp add: req_outputType_def)
  then have "invalid_request req"
    by (simp add: invalid_request_def)
  then show ?thesis
    by (simp add: handler_invalid bad_request_def)
qed

text \<open>An instance: \<open>outputType = "gif"\<close>.\<close>

theorem C3_witness:
  "body_field body_outputType (request_of_type ''gif'') = Some ''gif'' \<and> ''gif'' \<noteq> [] \<and>
   toLowerCase ''gif'' \<notin> {''png'', ''jpeg'', ''webp''} \<and>
   status (fst (render_handler (world_ok doc_collapsed) (request_of_type ''gif''))) = 400 \<and>
   snd (render_handler (world_ok doc_collapsed) (request_of_type ''gif'')) = []"
proof -
  have a: "body_field body_outputType (request_of_type ''gif'') = Some ''gif''"
    by (rule field_request_of_type)
  have b: "''gif'' \<noteq> []" by simp
  have c: "toLowerCase ''gif'' \<notin> {''png'', ''jpeg'', ''webp''}"
    by (simp add: lower_gif)
  from C3_unsupported_outputType_rejected [OF a b c, of "world_ok doc_collapsed"] a b c
  show ?thesis by blast
qed

text \<open>
  Claim C3 as stated fails on \<open>outputType = "PNG"\<close>: the text is none of the three
  supported values, yet the answer is 200 and the browser is launched.
\<close>

theorem C3_counterexample:
  "''PNG'' \<notin> {''png'', ''jpeg'', ''webp''} \<and>
   body_field body_outputType (request_of_type ''PNG'') = Some ''PNG'' \<and>
   status (fst (render_handler (world_ok doc_collapsed) (request_of_type ''PNG''))) = 200 \<and>
   Launch \<in> set (snd (render_handler (world_ok doc_collapsed) (request_of_type ''PNG'')))"
proof -
  have v: "\<not> invalid_request (request_of_type ''PNG'')"
    by (simp add: invalid_request_def svg_request_of_type req_outputType_def
          field_request_of_type lower_PNG svg_40_20_def)
  show ?thesis
    by (simp add: handler_valid [OF v svg_request_of_type] options_request_of_type lower_PNG
          eval_render_collapsed_typed field_request_of_type)
qed

text \<open>
  Claim C10. For every request that carries a non-empty SVG and an \<open>outputType\<close> whose
  lower-case form is \<open>png\<close>, \<open>jpeg\<close> or \<open>webp\<close>, whatever the case of its letters,
  the renderer is called with the lower-case form, the answer is never 400, and when the
  render returns a result the answer is 200 with that result's buffer, the format being
  the lower-case form.
\<close>

theorem C10_outputType_lowercased_before_validation:
  assumes "body_field body_outputType req = Some t"
    and "toLowerCase t \<in> {''png'', ''jpeg'', ''webp''}"
    and "req_svg req = Some svg" and "svg \<noteq> []"
  shows "outputType (req_options req) = Some (toLowerCase t) \<and>
         status (fst (render_handler w req)) \<noteq> 400 \<and>
         (case fst (renderSvgFullPage w svg (req_options req)) of
            Inr result \<Rightarrow>
              format result = toLowerCase t \<and>
              status (fst (render_handler w req)) = 200 \<and>
              payload (fst (render_handler w req)) = Binary (buffer result) \<and>
              map_of (headers (fst (render_handler w req))) ''Content-Type'' =
                Some (HStr (''image/'' @ toLowerCase t))
          | Inl error \<Rightarrow> status (fst (render_handler w req)) = 500)"
proof -
  from assms(2) have ne: "t \<noteq> []"
    by (auto simp: toLowerCase_def)
  with assms(1) have ot: "req_outputType req = toLowerCase t"
    by (simp add: req_outputType_def)
  then have o: "outputType (req_options req) = Some (toLowerCase t)"
    by (simp add: req_options_def Let_def)
  from ot assms have v: "\<not> invalid_request req"
    by (auto simp: invalid_request_def)
  have f: "format result = toLowerCase t"
    if "fst (renderSvgFullPage w svg (req_options req)) = Inr result" for result
  proof -
    from that have "fst (render_try w svg (req_options req)) = Inr result"
      by (rule renderSvgFullPage_success)
    then have "format result = str_or (outputType (req_options req)) ''png''"
      using render_try_success by blast
    with o assms(2) show ?thesis by auto
  qed
  show ?thesis
  proof (cases "renderSvgFullPage w svg (req_options req)")
    case (Pair r tr)
    then show ?thesis
      using o f handler_valid [OF v assms(3), of w]
      by (cases r) auto
  qed
qed

text \<open>An instance: \<open>outputType = "Jpeg"\<close> is rendered as \<open>jpeg\<close>.\<close>

theorem C10_witness:
  "body_field body_outputType (request_of_type ''Jpeg'') = Some ''Jpeg'' \<and>
   toLowerCase ''Jpeg'' \<in> {''png'', ''jpeg'', ''webp''} \<and>
   req_svg (request_of_type ''Jpeg'') = Some svg_40_20 \<and> svg_40_20 \<noteq> [] \<and>
   outputType (req_options (request_of_type ''Jpeg'')) = Some ''jpeg'' \<and>
   status (fst (render_handler (world_ok doc_collapsed) (request_of_type ''Jpeg''))) = 200 \<and>
   payload (fst (render_handler (world_ok doc_collapsed) (request_of_type ''Jpeg''))) =
     Binary ''IMG:jpeg'' \<and>
   map_of (headers (fst (render_handler (world_ok doc_collapsed) (request_of_type ''Jpeg''))))
     ''Content-Type'' = Some (HStr ''image/jpeg'')"
proof -
  have a: "body_field body_outputType (request_of_type ''Jpeg'') = Some ''Jpeg''"
    by (rule field_request_of_type)
  have b: "toLowerCase ''Jpeg'' \<in> {''png'', ''jpeg'', ''webp''}"
    by (simp add: lower_Jpeg)
  have c: "req_svg (request_of_type ''Jpeg'') = Some svg_40_20"
    by (rule svg_request_of_type)
  have d: "svg_40_20 \<noteq> []"
    by (simp add: svg_40_20_def)
  have e: "fst (renderSvgFullPage (world_ok doc_collapsed) svg_40_20
             (req_options (request_of_type ''Jpeg''))) =
           Inr \<lparr> buffer = ''IMG:jpeg'', width = 41, height = 1, format = ''jpeg'', path = None,
            debugPath = ''/app/temp/png-2024-01-02T03-04-05-678Z.jpeg'' \<rparr>"
    by (simp add: options_request_of_type lower_Jpeg eval_render_collapsed_typed)
  from C10_outputType_lowercased_before_validation [OF a b c d, of "world_ok doc_collapsed"]
    a b c d e
  show ?thesis
    by (simp add: lower_Jpeg)
qed

text \<open>
  Claim C5, as amended. A request that fails the validation is answered with status 400
  and a JSON body that holds the single field \<open>error\<close>; a valid request whose render
  throws is answered with status 500 and the JSON body \<open>{error, type}\<close>, the message of
  the thrown value and the name of its constructor; a valid request whose render returns
  a result is answered with status 200 and the buffer.
\<close>

theorem C5_failure_bodies:
  "(invalid_request req \<longrightarrow>
      status (fst (render_handler w req)) = 400 \<and>
      (\<exists>msg. payload (fst (render_handler w req)) = Json [(''error'', msg)])) \<and>
   (\<not> invalid_request req \<longrightarrow>
      (case fst (renderSvgFullPage w (the (req_svg req)) (req_options req)) of
         Inl error \<Rightarrow>
           status (fst (render_handler w req)) = 500 \<and>
           payload (fst (render_handler w req)) =
             Json [(''error'', message error), (''type'', ctor_name error)]
       | Inr result \<Rightarrow>
           status (fst (render_handler w req)) = 200 \<and>
           payload (fst (render_handler w req)) = Binary (buffer result)))"
proof (cases "invalid_request req")
  case True
  then show ?thesis
    by (simp add: handler_invalid bad_request_def)
next
  case False
  then obtain svg where s: "req_svg req = Some svg"
    by (auto simp: invalid_request_def)
  show ?thesis
  proof (cases "renderSvgFullPage w svg (req_options req)")
    case (Pair r tr)
    then show ?thesis
      using False s handler_valid [OF False s, of w]
      by (cases r) auto
  qed
qed

text \<open>Two instances: a request without \<open>svg\<close>, and markup without an SVG element.\<close>

theorem C5_witness:
  "invalid_request (json_request empty_body) \<and>
   status (fst (render_handler (world_ok doc_div) (json_request empty_body))) = 400 \<and>
   payload (fst (render_handler (world_ok doc_div) (json_request empty_body))) =
     Json [(''error'', msg_svg_required)] \<and>
   \<not> invalid_request (json_request (empty_body \<lparr> body_svg := Some markup_div \<rparr>)) \<and>
   status (fst (render_handler (world_ok doc_div)
       (json_request (empty_body \<lparr> body_svg := Some markup_div \<rparr>)))) = 500 \<and>
   payload (fst (render_handler (world_ok doc_div)
       (json_request (empty_body \<lparr> body_svg := Some markup_div \<rparr>)))) =
     Json [(''error'', ''SVG element not found''), (''type'', ''Error'')]"
proof -
  let ?r1 = "json_request empty_body"
  let ?r2 = "json_request (empty_body \<lparr> body_svg := Some markup_div \<rparr>)"
  have a: "invalid_request ?r1"
    by (simp add: invalid_request_def json_request_def empty_body_def req_svg_def body_field_def)
  have b: "\<not> invalid_request ?r2"
    by (simp add: invalid_request_def json_request_def empty_body_def req_svg_def body_field_def
          req_outputType_def markup_div_def)
  have s: "the (req_svg ?r2) = markup_div"
    by (simp add: json_request_def empty_body_def req_svg_def body_field_def)
  have o: "req_options ?r2 = \<lparr> outputType = Some ''png'', outputPath = None,
       quality = Some (Fin 1), deviceScaleFactor = Some (Fin 2), timeout = Some (Fin 30000) \<rparr>"
    by (simp add: req_options_def req_outputType_def parsed_def json_request_def empty_body_def
          body_field_def)
  have e: "fst (renderSvgFullPage (world_ok doc_div) markup_div (req_options ?r2)) =
             Inl (Exn ''Error'' ''SVG element not found'')"
    unfolding o
    by (simp add: renderSvgFullPage_def render_try_def initPuppeteer_def world_ok_def
        doc_div_def shell_def then_step_def call_def call_val_def pure_def
        boundingBox_of_def screenshotOptions_of_def timestamp_of_def Let_def)
  have m: "payload (fst (render_handler (world_ok doc_div) ?r1)) =
             Json [(''error'', msg_svg_required)]"
    using a by (simp add: handler_invalid bad_request_def json_request_def empty_body_def
       req_svg_def body_field_def)
  from C5_failure_bodies [of ?r1 "world_ok doc_div"] C5_failure_bodies [of ?r2 "world_ok doc_div"]
    a b s e m
  show ?thesis
    by simp
qed

text \<open>
  Claim C5 as stated fails on the validation failures: the body of the 400 answer to a
  request without \<open>svg\<close> has the field \<open>error\<close> and no field \<open>type\<close>.
\<close>

theorem C5_counterexample:
  "status (fst (render_handler (world_ok doc_div) (json_request empty_body))) = 400 \<and>
   json_keys (payload (fst (render_handler (world_ok doc_div) (json_request empty_body)))) =
     [''error''] \<and>
   ''type'' \<notin> set (json_keys (payload (fst (render_handler (world_ok doc_div)
                                                (json_request empty_body)))))"
  by (simp add: render_handler_def json_request_def empty_body_def req_svg_def body_field_def
        bad_request_def json_keys_def)

section \<open>FallbackTransport: what \<open>svgDataUriToString\<close> recovers\<close>

lemma split_js_no_sep: "sep \<notin> set b \<Longrightarrow> split_js sep b = [b]"
  by (induction b) auto

lemma split_js_first:
  "sep \<notin> set a \<Longrightarrow> split_js sep (a @ sep # rest) = a # split_js sep rest"
  by (induction a) auto

text \<open>A text that does not start with the scheme is returned as it is.\<close>

lemma svgDataUriToString_not_data_uri:
  "\<not> startsWith s ''data:image/svg+xml'' \<Longrightarrow> svgDataUriToString s = s"
  by (simp add: svgDataUriToString_def)

text \<open>A payload without a comma is recovered: decoded, or kept when decoding fails.\<close>

lemma svgDataUriToString_payload_without_comma:
  assumes "startsWith (h @ CHR '','' # p) ''data:image/svg+xml''"
    and "CHR '','' \<notin> set h" and "CHR '','' \<notin> set p"
  shows "svgDataUriToString (h @ CHR '','' # p) =
           (case decodeURIComponent p of Some d \<Rightarrow> d | None \<Rightarrow> p)"
  using assms
  by (simp add: svgDataUriToString_def split_js_first split_js_no_sep)

text \<open>A payload with a comma is cut there: what follows the comma is lost.\<close>

lemma svgDataUriToString_payload_with_comma:
  assumes "startsWith (h @ CHR '','' # p1 @ CHR '','' # p2) ''data:image/svg+xml''"
    and "CHR '','' \<notin> set h" and "CHR '','' \<notin> set p1"
  shows "svgDataUriToString (h @ CHR '','' # p1 @ CHR '','' # p2) =
           (case decodeURIComponent p1 of Some d \<Rightarrow> d | None \<Rightarrow> p1)"
  using assms
  by (simp add: svgDataUriToString_def split_js_first split: list.splits)

text \<open>
  Claim C7, which the code breaks for a payload that holds a comma: \<open>split(',')[1]\<close>
  is the piece between the first and the second comma, so the markup
  \<open><svg><rect fill="rgb(1,2,3)"/></svg>\<close> comes back cut after \<open>rgb(1\<close>, where
  the claim has the whole markup recovered.
\<close>

theorem C7_payload_cut_at_second_comma:
  \<open>svgDataUriToString
     ''data:image/svg+xml;charset=utf-8,<svg><rect fill="rgb(1,2,3)"/></svg>'' =
   ''<svg><rect fill="rgb(1''\<close>
  by code_simp

end
